theory Spec2Isabelle
  imports Complex_Main "HOL-Library.AList"
begin

section \<open>JavaScript values as the two servers see them\<close>

text \<open>
  The repository holds two variants of one Express server: \<^verbatim>\<open>server.js\<close> relays prices
  from CoinGecko, the second file relays them from CoinMarketCap. Both parse the upstream
  body with \<^verbatim>\<open>response.json()\<close> and walk the parsed value with property reads, truthiness
  tests and \<^verbatim>\<open>&&\<close>, so the model needs JavaScript values, not only well-shaped payloads.

  A number is a finite value, an infinity or NaN. Finite values are modelled by the real
  they denote, so \<^verbatim>\<open>0\<close> and \<^verbatim>\<open>-0\<close> coincide (both are falsy and both are \<^verbatim>\<open>=== 0\<close>).
  An object is an association list in insertion order; a property is looked up with
  \<^const>\<open>map_of\<close> and assigned with \<^const>\<open>AList.update\<close>, which overwrites in place or
  appends, as an assignment to a string-keyed property does. A parsed object has each key
  once; should a list repeat a key, the first entry is the one read.
\<close>

datatype jsnum = Fin real | PosInf | NegInf | NaN

datatype jsval =
    JUndefined
  | JNull
  | JBool bool
  | JNum jsnum
  | JStr string
  | JArr "jsval list"
  | JObj "(string \<times> jsval) list"

type_synonym object = "(string \<times> jsval) list"

text \<open>Every value the code can catch is an error object; \<^verbatim>\<open>catch\<close> reads only its message.\<close>

datatype js_error = JsError (message: string)

text \<open>
  What the JavaScript engine contributes and the repository does not define: the text of a
  number, the number a string denotes, the message of the TypeError raised by a property
  read on \<^verbatim>\<open>null\<close> or \<^verbatim>\<open>undefined\<close>, and the message of the TypeError raised when an object
  cannot be converted to a primitive value. They are parameters of the model.
\<close>

record runtime =
  number_to_string :: "jsnum \<Rightarrow> string"
  string_to_number :: "string \<Rightarrow> jsnum"
  type_error_message :: "jsval \<Rightarrow> string \<Rightarrow> string"
  convert_error_message :: "jsval \<Rightarrow> string"

fun truthy :: "jsval \<Rightarrow> bool" where
  "truthy JUndefined = False"
| "truthy JNull = False"
| "truthy (JBool b) = b"
| "truthy (JNum (Fin x)) = (x \<noteq> 0)"
| "truthy (JNum NaN) = False"
| "truthy (JNum PosInf) = True"
| "truthy (JNum NegInf) = True"
| "truthy (JStr s) = (s \<noteq> [])"
| "truthy (JArr xs) = True"
| "truthy (JObj kvs) = True"

text \<open>Decimal text of a non-negative integer (an HTTP status, an array index).\<close>

fun decimal :: "nat \<Rightarrow> string" where
  "decimal n =
     (if n < 10 then [''0123456789'' ! n]
      else decimal (n div 10) @ [''0123456789'' ! (n mod 10)])"

declare decimal.simps [simp del]

fun join :: "string \<Rightarrow> string list \<Rightarrow> string" where
  "join sep [] = []"
| "join sep [x] = x"
| "join sep (x # y # zs) = x @ sep @ join sep (y # zs)"

text \<open>
  \<^verbatim>\<open>String.prototype.toLowerCase\<close> on the ASCII letters; other characters are left alone.
  The configured identifiers are ASCII.
\<close>

definition lower_char :: "char \<Rightarrow> char" where
  "lower_char c =
     (case map_of (zip ''ABCDEFGHIJKLMNOPQRSTUVWXYZ'' ''abcdefghijklmnopqrstuvwxyz'') c of
        Some l \<Rightarrow> l
      | None \<Rightarrow> c)"

definition toLowerCase :: "string \<Rightarrow> string" where
  "toLowerCase s = map lower_char s"

text \<open>
  Conversion to a string, as a template literal and \<^verbatim>\<open>Array.prototype.join\<close> perform it.
  A parsed object has no callable property of its own, so its conversion goes to
  \<^verbatim>\<open>Object.prototype.toString\<close> and gives \<^verbatim>\<open>[object Object]\<close>, unless the object has a key
  \<^verbatim>\<open>toString\<close> of its own: that value shadows the inherited method, is not callable, and
  the inherited \<^verbatim>\<open>valueOf\<close> (or an own one) yields no primitive, so the conversion throws a
  TypeError. An array is joined with commas, left to right; \<^verbatim>\<open>null\<close> and \<^verbatim>\<open>undefined\<close>
  elements contribute the empty string, and an element that throws makes the whole
  conversion throw. Limits of the engine (stack depth, memory) are not modelled.
\<close>

fun to_string :: "runtime \<Rightarrow> jsval \<Rightarrow> js_error + string"
  and to_strings :: "runtime \<Rightarrow> jsval list \<Rightarrow> js_error + string list"
where
  "to_string rt JUndefined = Inr ''undefined''"
| "to_string rt JNull = Inr ''null''"
| "to_string rt (JBool b) = Inr (if b then ''true'' else ''false'')"
| "to_string rt (JNum n) = Inr (number_to_string rt n)"
| "to_string rt (JStr s) = Inr s"
| "to_string rt (JArr xs) =
     (case to_strings rt xs of
        Inl e \<Rightarrow> Inl e
      | Inr ss \<Rightarrow> Inr (join '','' ss))"
| "to_string rt (JObj kvs) =
     (if map_of kvs ''toString'' \<noteq> None
      then Inl (JsError (convert_error_message rt (JObj kvs)))
      else Inr ''[object Object]'')"
| "to_strings rt [] = Inr []"
| "to_strings rt (x # xs) =
     (case (if x = JNull \<or> x = JUndefined then Inr [] else to_string rt x) of
        Inl e \<Rightarrow> Inl e
      | Inr s \<Rightarrow>
          (case to_strings rt xs of
             Inl e \<Rightarrow> Inl e
           | Inr ss \<Rightarrow> Inr (s # ss)))"

text \<open>
  Conversion to a number, as the comparison \<^verbatim>\<open>v > 0\<close> performs it on its left operand. An
  array or an object is first converted to a primitive: the inherited \<^verbatim>\<open>valueOf\<close> returns the
  object itself, so the result is that of the conversion to a string, throw included.
  \<^verbatim>\<open>[object Object]\<close> denotes no number.
\<close>

fun to_number :: "runtime \<Rightarrow> jsval \<Rightarrow> js_error + jsnum" where
  "to_number rt JUndefined = Inr NaN"
| "to_number rt JNull = Inr (Fin 0)"
| "to_number rt (JBool b) = Inr (if b then Fin 1 else Fin 0)"
| "to_number rt (JNum n) = Inr n"
| "to_number rt (JStr s) = Inr (string_to_number rt s)"
| "to_number rt (JArr xs) =
     (case to_string rt (JArr xs) of
        Inl e \<Rightarrow> Inl e
      | Inr s \<Rightarrow> Inr (string_to_number rt s))"
| "to_number rt (JObj kvs) =
     (case to_string rt (JObj kvs) of
        Inl e \<Rightarrow> Inl e
      | Inr s \<Rightarrow> Inr NaN)"

text \<open>The comparison \<^verbatim>\<open>v > 0\<close>: NaN compares false; a conversion that throws makes it throw.\<close>

definition gt_zero :: "runtime \<Rightarrow> jsval \<Rightarrow> js_error + bool" where
  "gt_zero rt v =
     (case to_number rt v of
        Inl e \<Rightarrow> Inl e
      | Inr n \<Rightarrow>
          Inr (case n of Fin x \<Rightarrow> 0 < x | PosInf \<Rightarrow> True | NegInf \<Rightarrow> False | NaN \<Rightarrow> False))"

text \<open>
  Property reads. \<^verbatim>\<open>obj.k\<close> and \<^verbatim>\<open>obj[k]\<close> on \<^verbatim>\<open>null\<close> or \<^verbatim>\<open>undefined\<close> throw a TypeError;
  on a boolean or a number they give \<^verbatim>\<open>undefined\<close>; a string and an array have \<^verbatim>\<open>length\<close>
  and their indices; an object has its own keys. Inherited properties are not modelled as
  reads: the servers read none of them by name. The two inherited methods that conversions
  call, \<^verbatim>\<open>toString\<close> and \<^verbatim>\<open>valueOf\<close>, are part of the conversions above.
\<close>

definition array_index :: "string \<Rightarrow> nat \<Rightarrow> nat option" where
  "array_index k n = find (\<lambda>i. decimal i = k) [0..<n]"

definition obj_get :: "object \<Rightarrow> string \<Rightarrow> jsval" where
  "obj_get kvs k = (case map_of kvs k of Some v \<Rightarrow> v | None \<Rightarrow> JUndefined)"

fun get_prop :: "runtime \<Rightarrow> jsval \<Rightarrow> string \<Rightarrow> js_error + jsval" where
  "get_prop rt JUndefined k = Inl (JsError (type_error_message rt JUndefined k))"
| "get_prop rt JNull k = Inl (JsError (type_error_message rt JNull k))"
| "get_prop rt (JBool b) k = Inr JUndefined"
| "get_prop rt (JNum n) k = Inr JUndefined"
| "get_prop rt (JStr s) k =
     Inr (if k = ''length'' then JNum (Fin (real (length s)))
          else (case array_index k (length s) of
                  Some i \<Rightarrow> JStr [s ! i]
                | None \<Rightarrow> JUndefined))"
| "get_prop rt (JArr xs) k =
     Inr (if k = ''length'' then JNum (Fin (real (length xs)))
          else (case array_index k (length xs) of
                  Some i \<Rightarrow> xs ! i
                | None \<Rightarrow> JUndefined))"
| "get_prop rt (JObj kvs) k = Inr (obj_get kvs k)"

section \<open>The upstream call and the HTTP surface\<close>

text \<open>
  What \<^verbatim>\<open>node-fetch\<close> hands to the server: the promise of \<^verbatim>\<open>fetch\<close> rejects with an error or
  resolves with a response. A response has its status line, and \<^verbatim>\<open>response.text()\<close> and
  \<^verbatim>\<open>response.json()\<close> each either reject (\<open>Inl\<close>: the body could not be read, or it is not
  JSON) or give a value. \<^verbatim>\<open>response.ok\<close> is node-fetch's getter: a status from 200 to 299.
  Only settled calls are modelled: neither server sets a timeout.
\<close>

record response =
  status :: nat
  statusText :: string
  body_text :: "js_error + string"
  body_json :: "js_error + jsval"

definition ok :: "response \<Rightarrow> bool" where
  "ok r = (200 \<le> status r \<and> status r < 300)"

datatype fetch_outcome = Rejected js_error | Resolved response

text \<open>The effects a handler performs, in order: outbound requests and log lines.\<close>

datatype effect = HttpGet string | ConsoleError string string

datatype body = TextBody string | JsonBody object

record http_response =
  code :: nat
  payload :: body

section \<open>\<^verbatim>\<open>server.js\<close>: the CoinGecko variant\<close>

definition COINGECKO_API_URL :: string where
  "COINGECKO_API_URL = ''https://api.coingecko.com/api/v3/simple/price''"

definition VS_CURRENCY :: string where
  "VS_CURRENCY = ''usd''"

definition CRYPTO_IDS :: "string list" where
  "CRYPTO_IDS =
     [''bitcoin'', ''ethereum'', ''litecoin'', ''shiba-inu'', ''dogecoin'', ''tron'',
      ''ripple'', ''the-open-network'', ''tether'']"

definition cg_url :: string where
  "cg_url = COINGECKO_API_URL @ ''?ids='' @ join '','' CRYPTO_IDS @ ''&vs_currencies='' @ VS_CURRENCY"

text \<open>
  The loop over \<^verbatim>\<open>CRYPTO_IDS\<close>, with \<^verbatim>\<open>formattedPrices\<close> passed along. The test
  \<^verbatim>\<open>data[id] && data[id][VS_CURRENCY]\<close> reads \<^verbatim>\<open>data[id]\<close> first and reads the currency only
  when that is truthy.
\<close>

fun cg_format :: "runtime \<Rightarrow> jsval \<Rightarrow> string list \<Rightarrow> object \<Rightarrow> js_error + object" where
  "cg_format rt data [] formattedPrices = Inr formattedPrices"
| "cg_format rt data (id' # ids) formattedPrices =
     (case get_prop rt data id' of
        Inl e \<Rightarrow> Inl e
      | Inr entry \<Rightarrow>
          if truthy entry then
            (case get_prop rt entry VS_CURRENCY of
               Inl e \<Rightarrow> Inl e
             | Inr price \<Rightarrow>
                 if truthy price
                 then cg_format rt data ids (AList.update id' price formattedPrices)
                 else cg_format rt data ids (AList.update id' (JStr ''N/A'') formattedPrices))
          else cg_format rt data ids (AList.update id' (JStr ''N/A'') formattedPrices))"

text \<open>The body of \<^verbatim>\<open>try\<close>: \<open>Inl\<close> is a value thrown inside it, \<open>Inr\<close> the returned object.\<close>

definition cg_try :: "runtime \<Rightarrow> fetch_outcome \<Rightarrow> js_error + object" where
  "cg_try rt upstream =
     (case upstream of
        Rejected e \<Rightarrow> Inl e
      | Resolved response \<Rightarrow>
          if \<not> ok response then
            (case body_text response of
               Inl e \<Rightarrow> Inl e
             | Inr errorText \<Rightarrow>
                 Inl (JsError (''CoinGecko API error: '' @ decimal (status response) @ '' ''
                        @ statusText response @ '' - '' @ errorText)))
          else
            (case body_json response of
               Inl e \<Rightarrow> Inl e
             | Inr data \<Rightarrow> cg_format rt data CRYPTO_IDS []))"

definition error_result :: "js_error \<Rightarrow> object" where
  "error_result e =
     [(''error'', JStr ''Failed to fetch cryptocurrency prices''),
      (''details'', JStr (message e))]"

definition cg_fetchCryptoPrices :: "runtime \<Rightarrow> fetch_outcome \<Rightarrow> object \<times> effect list" where
  "cg_fetchCryptoPrices rt upstream =
     (case cg_try rt upstream of
        Inl e \<Rightarrow>
          (error_result e,
           [HttpGet cg_url, ConsoleError ''Error fetching crypto prices:'' (message e)])
      | Inr formattedPrices \<Rightarrow> (formattedPrices, [HttpGet cg_url]))"

text \<open>
  The two routes. A handler gets the request (which neither route reads) and the outcome the
  upstream call would have, and gives the response together with the effects performed.
\<close>

definition cg_root :: "'req \<Rightarrow> fetch_outcome \<Rightarrow> http_response \<times> effect list" where
  "cg_root req upstream =
     (\<lparr>code = 200,
       payload = TextBody ''Welcome to the Crypto Price API! Access /prices to get the latest data.''\<rparr>,
      [])"

definition cg_prices :: "runtime \<Rightarrow> 'req \<Rightarrow> fetch_outcome \<Rightarrow> http_response \<times> effect list" where
  "cg_prices rt req upstream =
     (case cg_fetchCryptoPrices rt upstream of
        (prices, effects) \<Rightarrow>
          if truthy (obj_get prices ''error'')
          then (\<lparr>code = 500, payload = JsonBody prices\<rparr>, effects)
          else (\<lparr>code = 200, payload = JsonBody prices\<rparr>, effects))"

section \<open>The second file: the CoinMarketCap variant\<close>

definition CMC_API_URL :: string where
  "CMC_API_URL = ''https://pro-api.coinmarketcap.com/v1/cryptocurrency/quotes/latest''"

definition CRYPTO_SYMBOLS :: "string list" where
  "CRYPTO_SYMBOLS =
     [''BTC'', ''ETH'', ''LTC'', ''SHIB'', ''DOGE'', ''TRX'', ''XRP'', ''TON'', ''USDT'']"

definition CONVERT_CURRENCY :: string where
  "CONVERT_CURRENCY = ''USD''"

definition cmc_url :: string where
  "cmc_url = CMC_API_URL @ ''?symbol='' @ join '','' CRYPTO_SYMBOLS @ ''&convert='' @ CONVERT_CURRENCY"

text \<open>
  The value stored for one symbol. The condition is the chain
  \<^verbatim>\<open>data.data && data.data[symbol] && data.data[symbol].length > 0 &&
  data.data[symbol][0].quote && data.data[symbol][0].quote[CONVERT_CURRENCY]\<close>,
  read left to right and stopped at the first falsy operand; when it holds, the stored value
  is the \<^verbatim>\<open>price\<close> property of the last operand. A property read may throw, and so may
  the comparison when it converts its left operand.
\<close>

definition cmc_lookup :: "runtime \<Rightarrow> jsval \<Rightarrow> string \<Rightarrow> js_error + jsval" where
  "cmc_lookup rt data symbol =
     (case get_prop rt data ''data'' of
        Inl e \<Rightarrow> Inl e
      | Inr d \<Rightarrow>
          if \<not> truthy d then Inr (JStr ''N/A'')
          else
            (case get_prop rt d symbol of
               Inl e \<Rightarrow> Inl e
             | Inr listing \<Rightarrow>
                 if \<not> truthy listing then Inr (JStr ''N/A'')
                 else
                   (case get_prop rt listing ''length'' of
                      Inl e \<Rightarrow> Inl e
                    | Inr len \<Rightarrow>
                        (case gt_zero rt len of
                           Inl e \<Rightarrow> Inl e
                         | Inr positive \<Rightarrow>
                             if \<not> positive then Inr (JStr ''N/A'')
                             else
                               (case get_prop rt listing ''0'' of
                                  Inl e \<Rightarrow> Inl e
                                | Inr first \<Rightarrow>
                                    (case get_prop rt first ''quote'' of
                                       Inl e \<Rightarrow> Inl e
                                     | Inr quote \<Rightarrow>
                                         if \<not> truthy quote then Inr (JStr ''N/A'')
                                         else
                                           (case get_prop rt quote CONVERT_CURRENCY of
                                              Inl e \<Rightarrow> Inl e
                                            | Inr q \<Rightarrow>
                                                if \<not> truthy q then Inr (JStr ''N/A'')
                                                else get_prop rt q ''price'')))))))"

fun cmc_format :: "runtime \<Rightarrow> jsval \<Rightarrow> string list \<Rightarrow> object \<Rightarrow> js_error + object" where
  "cmc_format rt data [] formattedPrices = Inr formattedPrices"
| "cmc_format rt data (symbol # symbols) formattedPrices =
     (case cmc_lookup rt data symbol of
        Inl e \<Rightarrow> Inl e
      | Inr v \<Rightarrow> cmc_format rt data symbols (AList.update (toLowerCase symbol) v formattedPrices))"

text \<open>
  The check \<^verbatim>\<open>data.status && data.status.error_code !== 0\<close> and the error it throws; the
  template literal converts \<^verbatim>\<open>data.status.error_message\<close> to a string, which may throw itself.
  \<open>Inr ()\<close>: the check passes.
\<close>

definition cmc_status_check :: "runtime \<Rightarrow> jsval \<Rightarrow> js_error + unit" where
  "cmc_status_check rt data =
     (case get_prop rt data ''status'' of
        Inl e \<Rightarrow> Inl e
      | Inr st \<Rightarrow>
          if truthy st then
            (case get_prop rt st ''error_code'' of
               Inl e \<Rightarrow> Inl e
             | Inr ec \<Rightarrow>
                 if ec \<noteq> JNum (Fin 0) then
                   (case get_prop rt st ''error_message'' of
                      Inl e \<Rightarrow> Inl e
                    | Inr em \<Rightarrow>
                        (case to_string rt em of
                           Inl e \<Rightarrow> Inl e
                         | Inr s \<Rightarrow>
                             Inl (JsError (''CoinMarketCap API internal error: '' @ s))))
                 else Inr ())
          else Inr ())"

definition cmc_try :: "runtime \<Rightarrow> fetch_outcome \<Rightarrow> js_error + object" where
  "cmc_try rt upstream =
     (case upstream of
        Rejected e \<Rightarrow> Inl e
      | Resolved response \<Rightarrow>
          if \<not> ok response then
            (case body_text response of
               Inl e \<Rightarrow> Inl e
             | Inr errorText \<Rightarrow>
                 Inl (JsError (''CoinMarketCap API error: '' @ decimal (status response) @ '' ''
                        @ statusText response @ '' - '' @ errorText)))
          else
            (case body_json response of
               Inl e \<Rightarrow> Inl e
             | Inr data \<Rightarrow>
                 (case cmc_status_check rt data of
                    Inl e \<Rightarrow> Inl e
                  | Inr u \<Rightarrow> cmc_format rt data CRYPTO_SYMBOLS [])))"

definition cmc_fetchCryptoPrices :: "runtime \<Rightarrow> fetch_outcome \<Rightarrow> object \<times> effect list" where
  "cmc_fetchCryptoPrices rt upstream =
     (case cmc_try rt upstream of
        Inl e \<Rightarrow>
          (error_result e,
           [HttpGet cmc_url,
            ConsoleError ''Error fetching crypto prices from CoinMarketCap:'' (message e)])
      | Inr formattedPrices \<Rightarrow> (formattedPrices, [HttpGet cmc_url]))"

definition cmc_root :: "'req \<Rightarrow> fetch_outcome \<Rightarrow> http_response \<times> effect list" where
  "cmc_root req upstream =
     (\<lparr>code = 200,
       payload = TextBody
         ''Welcome to the Crypto Price API! Access /prices to get the latest data from CoinMarketCap.''\<rparr>,
      [])"

definition cmc_prices :: "runtime \<Rightarrow> 'req \<Rightarrow> fetch_outcome \<Rightarrow> http_response \<times> effect list" where
  "cmc_prices rt req upstream =
     (case cmc_fetchCryptoPrices rt upstream of
        (prices, effects) \<Rightarrow>
          if truthy (obj_get prices ''error'')
          then (\<lparr>code = 500, payload = JsonBody prices\<rparr>, effects)
          else (\<lparr>code = 200, payload = JsonBody prices\<rparr>, effects))"

section \<open>Auxiliary notions\<close>

subsection \<open>The loops, item by item\<close>

text \<open>
  Both loops store one value per identifier or stop at the first throw. \<open>store_all\<close> is that
  scheme with the key and the stored value as parameters; \<open>cg_lookup\<close> is the value the
  CoinGecko loop stores for one identifier. The loops are shown equal to instances of it.
\<close>

fun store_all ::
  "(string \<Rightarrow> string) \<Rightarrow> (string \<Rightarrow> js_error + jsval) \<Rightarrow> string list \<Rightarrow> object \<Rightarrow> js_error + object"
where
  "store_all key f [] fp = Inr fp"
| "store_all key f (i # is) fp =
     (case f i of
        Inl e \<Rightarrow> Inl e
      | Inr v \<Rightarrow> store_all key f is (AList.update (key i) v fp))"

definition cg_lookup :: "runtime \<Rightarrow> jsval \<Rightarrow> string \<Rightarrow> js_error + jsval" where
  "cg_lookup rt data i =
     (case get_prop rt data i of
        Inl e \<Rightarrow> Inl e
      | Inr entry \<Rightarrow>
          if truthy entry then
            (case get_prop rt entry VS_CURRENCY of
               Inl e \<Rightarrow> Inl e
             | Inr price \<Rightarrow> if truthy price then Inr price else Inr (JStr ''N/A''))
          else Inr (JStr ''N/A''))"

subsection \<open>Payload shapes\<close>

text \<open>
  A payload contains a price entry for an identifier when a number stands at the provider's
  nesting: \<^verbatim>\<open>data[ID][CURRENCY]\<close> for CoinGecko, \<^verbatim>\<open>data.data[ID][0].quote[CURRENCY].price\<close>
  for CoinMarketCap. A CoinGecko payload omits an identifier when it is an object without
  that key.
\<close>

fun field :: "jsval \<Rightarrow> string \<Rightarrow> jsval option" where
  "field (JObj kvs) k = map_of kvs k"
| "field v k = None"

fun first_element :: "jsval \<Rightarrow> jsval option" where
  "first_element (JArr (x # xs)) = Some x"
| "first_element v = None"

fun as_number :: "jsval \<Rightarrow> jsnum option" where
  "as_number (JNum n) = Some n"
| "as_number v = None"

definition cg_price_entry :: "jsval \<Rightarrow> string \<Rightarrow> jsnum option" where
  "cg_price_entry data i =
     Option.bind (field data i) (\<lambda>entry.
     Option.bind (field entry VS_CURRENCY) as_number)"

definition cmc_price_entry :: "jsval \<Rightarrow> string \<Rightarrow> jsnum option" where
  "cmc_price_entry data s =
     Option.bind (field data ''data'') (\<lambda>d.
     Option.bind (field d s) (\<lambda>listing.
     Option.bind (first_element listing) (\<lambda>first.
     Option.bind (field first ''quote'') (\<lambda>quote.
     Option.bind (field quote CONVERT_CURRENCY) (\<lambda>q.
     Option.bind (field q ''price'') as_number)))))"

fun omits :: "jsval \<Rightarrow> string \<Rightarrow> bool" where
  "omits (JObj kvs) k = (map_of kvs k = None)"
| "omits v k = False"

subsection \<open>Sample inputs\<close>

text \<open>
  Concrete inputs on which the theorems below are run. \<open>sample_runtime\<close> stands for an
  engine; every theorem holds for any runtime. \<open>json_reply\<close> is a 200 reply whose body
  parses to the given value (its text is only read on a non-success status).
\<close>

definition sample_runtime :: runtime where
  "sample_runtime =
     \<lparr>number_to_string = (\<lambda>n. ''<number>''),
      string_to_number = (\<lambda>s. NaN),
      type_error_message = (\<lambda>v k. ''Cannot read properties of null or undefined''),
      convert_error_message = (\<lambda>v. ''Cannot convert object to primitive value'')\<rparr>"

definition json_reply :: "jsval \<Rightarrow> response" where
  "json_reply data =
     \<lparr>status = 200, statusText = ''OK'', body_text = Inr ''<json>'', body_json = Inr data\<rparr>"

definition unavailable_reply :: response where
  "unavailable_reply =
     \<lparr>status = 503, statusText = ''Service Unavailable'',
      body_text = Inr ''upstream down'',
      body_json = Inl (JsError ''Unexpected token u in JSON at position 0'')\<rparr>"


definition broken_reply :: response where
  "broken_reply =
     \<lparr>status = 502, statusText = ''Bad Gateway'', body_text = Inl (JsError ''Premature close''),
      body_json = Inl (JsError ''Premature close'')\<rparr>"

definition cg_quotes :: "(string \<times> jsnum) list \<Rightarrow> jsval" where
  "cg_quotes ps = JObj (map (\<lambda>(i, p). (i, JObj [(''usd'', JNum p)])) ps)"

definition cmc_listing :: "jsnum \<Rightarrow> jsval" where
  "cmc_listing p = JArr [JObj [(''quote'', JObj [(''USD'', JObj [(''price'', JNum p)])])]]"

definition cmc_body :: "(string \<times> jsval) list \<Rightarrow> jsval" where
  "cmc_body listings =
     JObj [(''status'', JObj [(''error_code'', JNum (Fin 0)), (''error_message'', JNull)]),
           (''data'', JObj listings)]"

definition cmc_quotes :: "(string \<times> jsnum) list \<Rightarrow> jsval" where
  "cmc_quotes ps = cmc_body (map (\<lambda>(s, p). (s, cmc_listing p)) ps)"

definition cg_full :: jsval where
  "cg_full =
     cg_quotes
       [(''bitcoin'', Fin 30000), (''ethereum'', Fin 2000), (''litecoin'', Fin 90),
        (''shiba-inu'', Fin (1 / 100000)), (''dogecoin'', Fin (7 / 100)), (''tron'', Fin (8 / 100)),
        (''ripple'', Fin (1 / 2)), (''the-open-network'', Fin 2), (''tether'', Fin 1)]"

definition cg_zero_bitcoin :: jsval where
  "cg_zero_bitcoin =
     cg_quotes
       [(''bitcoin'', Fin 0), (''ethereum'', Fin 2000), (''litecoin'', Fin 90),
        (''shiba-inu'', Fin (1 / 100000)), (''dogecoin'', Fin (7 / 100)), (''tron'', Fin (8 / 100)),
        (''ripple'', Fin (1 / 2)), (''the-open-network'', Fin 2), (''tether'', Fin 1)]"

definition cg_no_tether_zero_tron :: jsval where
  "cg_no_tether_zero_tron =
     cg_quotes
       [(''bitcoin'', Fin 30000), (''ethereum'', Fin 2000), (''litecoin'', Fin 90),
        (''shiba-inu'', Fin (1 / 100000)), (''dogecoin'', Fin (7 / 100)), (''tron'', Fin 0),
        (''ripple'', Fin (1 / 2)), (''the-open-network'', Fin 2)]"

definition cmc_full :: jsval where
  "cmc_full =
     cmc_quotes
       [(''BTC'', Fin 30000), (''ETH'', Fin 2000), (''LTC'', Fin 90), (''SHIB'', Fin 0),
        (''DOGE'', Fin (7 / 100)), (''TRX'', Fin (8 / 100)), (''XRP'', Fin (1 / 2)),
        (''TON'', Fin 2), (''USDT'', Fin 1)]"

definition provider_error :: jsval where
  "provider_error =
     JObj [(''status'',
            JObj [(''error_code'', JNum (Fin 1008)),
                  (''error_message'', JStr ''request rate limit exceeded'')])]"

definition unprintable_error :: jsval where
  "unprintable_error =
     JObj [(''status'',
            JObj [(''error_code'', JNum (Fin 1)),
                  (''error_message'', JObj [(''toString'', JNum (Fin 1)), (''valueOf'', JNum (Fin 1))])])]"

definition cmc_other_listings :: "(string \<times> jsval) list" where
  "cmc_other_listings =
     [(''ETH'', cmc_listing (Fin 2000)), (''LTC'', cmc_listing (Fin 90)),
      (''SHIB'', cmc_listing (Fin 0)), (''DOGE'', cmc_listing (Fin (7 / 100))),
      (''TRX'', cmc_listing (Fin (8 / 100))), (''XRP'', cmc_listing (Fin (1 / 2))),
      (''TON'', cmc_listing (Fin 2)), (''USDT'', cmc_listing (Fin 1))]"

definition cmc_null_listing :: jsval where
  "cmc_null_listing = cmc_body ((''BTC'', JArr [JNull]) # cmc_other_listings)"

definition cmc_priceless_quote :: jsval where
  "cmc_priceless_quote =
     cmc_body ((''BTC'', JArr [JObj [(''quote'', JObj [(''USD'', JObj [])])]]) # cmc_other_listings)"

definition cmc_full_no_code :: jsval where
  "cmc_full_no_code =
     JObj [(''status'', JObj [(''error_message'', JNull)]),
           (''data'', JObj ((''BTC'', cmc_listing (Fin 30000)) # cmc_other_listings))]"

section \<open>Helper lemmas\<close>

subsection \<open>The loops\<close>

lemma cg_format_store_all:
  "cg_format rt data ids fp = store_all (\<lambda>i. i) (cg_lookup rt data) ids fp"
  by (induction ids arbitrary: fp) (auto simp: cg_lookup_def split: sum.splits)

lemma cmc_format_store_all:
  "cmc_format rt data ids fp = store_all toLowerCase (cmc_lookup rt data) ids fp"
  by (induction ids arbitrary: fp) (auto split: sum.splits)

lemma store_all_keys:
  "store_all key f ids fp = Inr r \<Longrightarrow> distinct (map fst fp @ map key ids) \<Longrightarrow>
   map fst r = map fst fp @ map key ids"
proof (induction ids arbitrary: fp)
  case Nil
  then show ?case by simp
next
  case (Cons i ids)
  from Cons.prems(1) obtain v where v: "f i = Inr v"
    and r: "store_all key f ids (AList.update (key i) v fp) = Inr r"
    by (auto split: sum.splits)
  from Cons.prems(2) have fresh: "key i \<notin> set (map fst fp)" by auto
  then have keys: "map fst (AList.update (key i) v fp) = map fst fp @ [key i]"
    by (simp add: update_keys)
  with Cons.prems(2) have "distinct (map fst (AList.update (key i) v fp) @ map key ids)"
    by auto
  from Cons.IH [OF r this] keys show ?case by simp
qed

lemma store_all_other:
  "store_all key f ids fp = Inr r \<Longrightarrow> k \<notin> key ` set ids \<Longrightarrow> map_of r k = map_of fp k"
proof (induction ids arbitrary: fp)
  case Nil
  then show ?case by simp
next
  case (Cons i ids)
  from Cons.prems(1) obtain v where v: "f i = Inr v"
    and r: "store_all key f ids (AList.update (key i) v fp) = Inr r"
    by (auto split: sum.splits)
  from Cons.prems(2) have "k \<notin> key ` set ids" and "k \<noteq> key i" by auto
  with Cons.IH [OF r] show ?case by (simp add: update_conv')
qed

lemma store_all_value:
  "store_all key f ids fp = Inr r \<Longrightarrow> i \<in> set ids \<Longrightarrow> distinct (map key ids) \<Longrightarrow>
   \<exists>v. f i = Inr v \<and> map_of r (key i) = Some v"
proof (induction ids arbitrary: fp)
  case Nil
  then show ?case by simp
next
  case (Cons j ids)
  from Cons.prems(1) obtain v where v: "f j = Inr v"
    and r: "store_all key f ids (AList.update (key j) v fp) = Inr r"
    by (auto split: sum.splits)
  show ?case
  proof (cases "i = j")
    case True
    from Cons.prems(3) have "key j \<notin> key ` set ids" by auto
    from store_all_other [OF r this] have "map_of r (key j) = Some v"
      by (simp add: update_conv')
    with v True show ?thesis by simp
  next
    case False
    with Cons.prems have "i \<in> set ids" and "distinct (map key ids)" by auto
    from Cons.IH [OF r this] show ?thesis .
  qed
qed

lemma store_all_succeeds:
  "(\<And>i. i \<in> set ids \<Longrightarrow> \<exists>v. f i = Inr v) \<Longrightarrow> \<exists>r. store_all key f ids fp = Inr r"
proof (induction ids arbitrary: fp)
  case Nil
  then show ?case by simp
next
  case (Cons i ids)
  then obtain v where "f i = Inr v" by auto
  with Cons show ?case by auto
qed

subsection \<open>The configured identifiers\<close>

lemma lower_ids: "map toLowerCase CRYPTO_IDS = CRYPTO_IDS"
  by (simp add: CRYPTO_IDS_def toLowerCase_def lower_char_def)

lemma lower_symbols:
  "map toLowerCase CRYPTO_SYMBOLS =
     [''btc'', ''eth'', ''ltc'', ''shib'', ''doge'', ''trx'', ''xrp'', ''ton'', ''usdt'']"
  by (simp add: CRYPTO_SYMBOLS_def toLowerCase_def lower_char_def)

lemma distinct_ids: "distinct CRYPTO_IDS"
  by (simp add: CRYPTO_IDS_def)

lemma distinct_lower_symbols: "distinct (map toLowerCase CRYPTO_SYMBOLS)"
  by (simp add: lower_symbols)

lemma error_not_id: "''error'' \<notin> set CRYPTO_IDS"
  by (simp add: CRYPTO_IDS_def)

lemma error_not_symbol: "''error'' \<notin> set (map toLowerCase CRYPTO_SYMBOLS)"
  by (simp add: lower_symbols)

subsection \<open>Property reads\<close>

lemma get_prop_truthy: "truthy v \<Longrightarrow> \<exists>x. get_prop rt v k = Inr x"
  by (cases v) auto

lemma array_index_first: "array_index ''0'' (Suc n) = Some 0"
proof -
  have upt: "[0..<Suc n] = 0 # [Suc 0..<Suc n]" by (rule upt_conv_Cons) simp
  have zero: "decimal 0 = ''0''" by (simp add: decimal.simps)
  show ?thesis unfolding array_index_def upt by (simp add: zero)
qed

lemma field_SomeD: "field v k = Some x \<Longrightarrow> \<exists>kvs. v = JObj kvs \<and> map_of kvs k = Some x"
  by (cases v) auto

subsection \<open>One identifier\<close>

lemma cg_lookup_falsy:
  assumes "map_of kvs i = Some (JObj e)" and "\<not> truthy (obj_get e VS_CURRENCY)"
  shows "cg_lookup rt (JObj kvs) i = Inr (JStr ''N/A'')"
  using assms by (simp add: cg_lookup_def obj_get_def)

lemma cg_lookup_total:
  assumes "data \<noteq> JNull" and "data \<noteq> JUndefined"
  shows "\<exists>v. cg_lookup rt data i = Inr v"
proof -
  from assms obtain entry where e: "get_prop rt data i = Inr entry" by (cases data) auto
  show ?thesis
  proof (cases "truthy entry")
    case True
    from get_prop_truthy [OF True] obtain x where "get_prop rt entry VS_CURRENCY = Inr x" by blast
    with e True show ?thesis by (simp add: cg_lookup_def)
  next
    case False
    with e show ?thesis by (simp add: cg_lookup_def)
  qed
qed

subsection \<open>The body of try\<close>

lemma cg_format_keys:
  "cg_format rt data CRYPTO_IDS [] = Inr m \<Longrightarrow> map fst m = CRYPTO_IDS"
  using store_all_keys [of "\<lambda>i. i" "cg_lookup rt data" CRYPTO_IDS "[]" m]
  by (simp add: cg_format_store_all distinct_ids)

lemma cmc_format_keys:
  "cmc_format rt data CRYPTO_SYMBOLS [] = Inr m \<Longrightarrow> map fst m = map toLowerCase CRYPTO_SYMBOLS"
  using store_all_keys [of toLowerCase "cmc_lookup rt data" CRYPTO_SYMBOLS "[]" m]
  by (simp add: cmc_format_store_all distinct_lower_symbols)

lemma cg_try_format:
  "cg_try rt u = Inr m \<Longrightarrow>
   \<exists>r data. u = Resolved r \<and> ok r \<and> body_json r = Inr data \<and> cg_format rt data CRYPTO_IDS [] = Inr m"
  by (auto simp: cg_try_def split: fetch_outcome.splits if_splits sum.splits)

lemma cmc_try_format:
  "cmc_try rt u = Inr m \<Longrightarrow>
   \<exists>r data. u = Resolved r \<and> ok r \<and> body_json r = Inr data \<and> cmc_status_check rt data = Inr ()
     \<and> cmc_format rt data CRYPTO_SYMBOLS [] = Inr m"
  by (auto simp: cmc_try_def split: fetch_outcome.splits if_splits sum.splits)

lemma cg_try_keys: "cg_try rt u = Inr m \<Longrightarrow> map fst m = CRYPTO_IDS"
  by (auto dest!: cg_try_format cg_format_keys)

lemma cmc_try_keys: "cmc_try rt u = Inr m \<Longrightarrow> map fst m = map toLowerCase CRYPTO_SYMBOLS"
  by (auto dest!: cmc_try_format cmc_format_keys)

lemma cg_try_ok:
  "ok r \<Longrightarrow> body_json r = Inr data \<Longrightarrow> cg_try rt (Resolved r) = cg_format rt data CRYPTO_IDS []"
  by (simp add: cg_try_def)

subsection \<open>The handler's dispatch\<close>

lemma error_result_truthy: "truthy (obj_get (error_result e) ''error'')"
  by (simp add: error_result_def obj_get_def)

lemma no_error_key: "''error'' \<notin> set (map fst m) \<Longrightarrow> \<not> truthy (obj_get m ''error'')"
  by (simp add: obj_get_def map_of_eq_None_iff [THEN iffD2])

lemma cg_prices_failure:
  "cg_try rt u = Inl e \<Longrightarrow>
   fst (cg_fetchCryptoPrices rt u) = error_result e \<and>
   fst (cg_prices rt req u) = \<lparr>code = 500, payload = JsonBody (error_result e)\<rparr>"
  by (simp add: cg_prices_def cg_fetchCryptoPrices_def error_result_truthy)

lemma cmc_prices_failure:
  "cmc_try rt u = Inl e \<Longrightarrow>
   fst (cmc_fetchCryptoPrices rt u) = error_result e \<and>
   fst (cmc_prices rt req u) = \<lparr>code = 500, payload = JsonBody (error_result e)\<rparr>"
  by (simp add: cmc_prices_def cmc_fetchCryptoPrices_def error_result_truthy)

lemma cg_prices_success:
  assumes "cg_try rt u = Inr m"
  shows "fst (cg_fetchCryptoPrices rt u) = m \<and>
         fst (cg_prices rt req u) = \<lparr>code = 200, payload = JsonBody m\<rparr>"
proof -
  from cg_try_keys [OF assms] have "''error'' \<notin> set (map fst m)" by (simp add: error_not_id)
  then have "\<not> truthy (obj_get m ''error'')" by (rule no_error_key)
  with assms show ?thesis by (simp add: cg_prices_def cg_fetchCryptoPrices_def)
qed

lemma cmc_prices_success:
  assumes "cmc_try rt u = Inr m"
  shows "fst (cmc_fetchCryptoPrices rt u) = m \<and>
         fst (cmc_prices rt req u) = \<lparr>code = 200, payload = JsonBody m\<rparr>"
proof -
  from cmc_try_keys [OF assms] have "''error'' \<notin> set (map fst m)"
    using error_not_symbol by simp
  then have "\<not> truthy (obj_get m ''error'')" by (rule no_error_key)
  with assms show ?thesis by (simp add: cmc_prices_def cmc_fetchCryptoPrices_def)
qed

subsection \<open>Sample runs\<close>

lemmas sample_defs =
  json_reply_def ok_def cg_quotes_def cmc_quotes_def cmc_body_def cmc_listing_def
  CRYPTO_IDS_def CRYPTO_SYMBOLS_def
  VS_CURRENCY_def CONVERT_CURRENCY_def obj_get_def

lemma cg_full_run:
  "cg_try rt (Resolved (json_reply cg_full)) =
     Inr [(''bitcoin'', JNum (Fin 30000)), (''ethereum'', JNum (Fin 2000)),
          (''litecoin'', JNum (Fin 90)), (''shiba-inu'', JNum (Fin (1 / 100000))),
          (''dogecoin'', JNum (Fin (7 / 100))), (''tron'', JNum (Fin (8 / 100))),
          (''ripple'', JNum (Fin (1 / 2))), (''the-open-network'', JNum (Fin 2)),
          (''tether'', JNum (Fin 1))]"
  by (simp add: cg_try_def cg_full_def sample_defs)

lemma cg_zero_bitcoin_run:
  "cg_try rt (Resolved (json_reply cg_zero_bitcoin)) =
     Inr [(''bitcoin'', JStr ''N/A''), (''ethereum'', JNum (Fin 2000)),
          (''litecoin'', JNum (Fin 90)), (''shiba-inu'', JNum (Fin (1 / 100000))),
          (''dogecoin'', JNum (Fin (7 / 100))), (''tron'', JNum (Fin (8 / 100))),
          (''ripple'', JNum (Fin (1 / 2))), (''the-open-network'', JNum (Fin 2)),
          (''tether'', JNum (Fin 1))]"
  by (simp add: cg_try_def cg_zero_bitcoin_def sample_defs)

lemma cmc_full_run:
  "cmc_try rt (Resolved (json_reply cmc_full)) =
     Inr [(''btc'', JNum (Fin 30000)), (''eth'', JNum (Fin 2000)), (''ltc'', JNum (Fin 90)),
          (''shib'', JNum (Fin 0)), (''doge'', JNum (Fin (7 / 100))),
          (''trx'', JNum (Fin (8 / 100))), (''xrp'', JNum (Fin (1 / 2))),
          (''ton'', JNum (Fin 2)), (''usdt'', JNum (Fin 1))]"
  by (simp add: cmc_try_def cmc_full_def cmc_status_check_def cmc_lookup_def gt_zero_def
      array_index_first toLowerCase_def lower_char_def sample_defs)

lemma cg_provider_error_run:
  "cg_try rt (Resolved (json_reply provider_error)) =
     Inr [(''bitcoin'', JStr ''N/A''), (''ethereum'', JStr ''N/A''), (''litecoin'', JStr ''N/A''),
          (''shiba-inu'', JStr ''N/A''), (''dogecoin'', JStr ''N/A''), (''tron'', JStr ''N/A''),
          (''ripple'', JStr ''N/A''), (''the-open-network'', JStr ''N/A''),
          (''tether'', JStr ''N/A'')]"
  by (simp add: cg_try_def provider_error_def sample_defs)

lemma cmc_bool_run:
  "cmc_try rt (Resolved (json_reply (JBool True))) =
     Inr [(''btc'', JStr ''N/A''), (''eth'', JStr ''N/A''), (''ltc'', JStr ''N/A''),
          (''shib'', JStr ''N/A''), (''doge'', JStr ''N/A''), (''trx'', JStr ''N/A''),
          (''xrp'', JStr ''N/A''), (''ton'', JStr ''N/A''), (''usdt'', JStr ''N/A'')]"
  by (simp add: cmc_try_def cmc_status_check_def cmc_lookup_def toLowerCase_def lower_char_def
      sample_defs)

lemma unavailable_run:
  "cg_try rt (Resolved unavailable_reply) =
     Inl (JsError ''CoinGecko API error: 503 Service Unavailable - upstream down'')"
  "cmc_try rt (Resolved unavailable_reply) =
     Inl (JsError ''CoinMarketCap API error: 503 Service Unavailable - upstream down'')"
  by (simp_all add: cg_try_def cmc_try_def unavailable_reply_def ok_def decimal.simps)

lemma error_result_keys: "map fst (error_result e) = [''error'', ''details'']"
  by (simp add: error_result_def)

lemma cg_success_not_error: "cg_try rt u = Inr m \<Longrightarrow> m \<notin> range error_result"
proof
  assume "cg_try rt u = Inr m" and "m \<in> range error_result"
  then obtain e where "map fst m = CRYPTO_IDS" and "m = error_result e"
    by (auto dest: cg_try_keys)
  then show False by (simp add: error_result_keys CRYPTO_IDS_def)
qed

lemma cmc_success_not_error: "cmc_try rt u = Inr m \<Longrightarrow> m \<notin> range error_result"
proof
  assume "cmc_try rt u = Inr m" and "m \<in> range error_result"
  then obtain e where "map fst m = map toLowerCase CRYPTO_SYMBOLS" and "m = error_result e"
    by (auto dest: cmc_try_keys)
  then show False by (simp add: error_result_keys lower_symbols)
qed

subsection \<open>Where the body of try throws\<close>











lemma cmc_null_listing_lookups:
  "cmc_lookup rt cmc_null_listing ''BTC'' = Inl (JsError (type_error_message rt JNull ''quote''))"
  "cmc_lookup rt cmc_null_listing ''ETH'' = Inr (JNum (Fin 2000))"
  "cmc_lookup rt cmc_null_listing ''LTC'' = Inr (JNum (Fin 90))"
  "cmc_lookup rt cmc_null_listing ''SHIB'' = Inr (JNum (Fin 0))"
  "cmc_lookup rt cmc_null_listing ''DOGE'' = Inr (JNum (Fin (7 / 100)))"
  "cmc_lookup rt cmc_null_listing ''TRX'' = Inr (JNum (Fin (8 / 100)))"
  "cmc_lookup rt cmc_null_listing ''XRP'' = Inr (JNum (Fin (1 / 2)))"
  "cmc_lookup rt cmc_null_listing ''TON'' = Inr (JNum (Fin 2))"
  "cmc_lookup rt cmc_null_listing ''USDT'' = Inr (JNum (Fin 1))"
  by (simp_all add: cmc_lookup_def cmc_null_listing_def cmc_other_listings_def cmc_body_def cmc_listing_def gt_zero_def
      array_index_first obj_get_def CONVERT_CURRENCY_def)

lemma cmc_null_listing_check: "cmc_status_check rt cmc_null_listing = Inr ()"
  by (simp add: cmc_status_check_def cmc_null_listing_def cmc_body_def obj_get_def)

lemma cmc_null_listing_run:
  "cmc_try rt (Resolved (json_reply cmc_null_listing)) =
     Inl (JsError (type_error_message rt JNull ''quote''))"
  by (simp add: cmc_try_def json_reply_def ok_def cmc_null_listing_check CRYPTO_SYMBOLS_def
      cmc_null_listing_lookups)



lemmas entry_defs =
  cg_price_entry_def cmc_price_entry_def cg_quotes_def cmc_quotes_def cmc_body_def cmc_listing_def
  cmc_other_listings_def CRYPTO_IDS_def CRYPTO_SYMBOLS_def VS_CURRENCY_def CONVERT_CURRENCY_def

lemma cmc_full_no_code_run:
  "cmc_try rt (Resolved (json_reply cmc_full_no_code)) =
     Inl (JsError ''CoinMarketCap API internal error: null'')"
  by (simp add: cmc_try_def json_reply_def ok_def cmc_status_check_def cmc_full_no_code_def
      obj_get_def)

lemma cmc_priceless_quote_run:
  "cmc_try rt (Resolved (json_reply cmc_priceless_quote)) =
     Inr [(''btc'', JUndefined), (''eth'', JNum (Fin 2000)), (''ltc'', JNum (Fin 90)),
          (''shib'', JNum (Fin 0)), (''doge'', JNum (Fin (7 / 100))),
          (''trx'', JNum (Fin (8 / 100))), (''xrp'', JNum (Fin (1 / 2))),
          (''ton'', JNum (Fin 2)), (''usdt'', JNum (Fin 1))]"
  by (simp add: cmc_try_def cmc_priceless_quote_def cmc_other_listings_def cmc_status_check_def
      cmc_lookup_def gt_zero_def array_index_first toLowerCase_def lower_char_def sample_defs)

lemma cg_no_tether_zero_tron_run:
  "cg_try rt (Resolved (json_reply cg_no_tether_zero_tron)) =
     Inr [(''bitcoin'', JNum (Fin 30000)), (''ethereum'', JNum (Fin 2000)),
          (''litecoin'', JNum (Fin 90)), (''shiba-inu'', JNum (Fin (1 / 100000))),
          (''dogecoin'', JNum (Fin (7 / 100))), (''tron'', JStr ''N/A''),
          (''ripple'', JNum (Fin (1 / 2))), (''the-open-network'', JNum (Fin 2)),
          (''tether'', JStr ''N/A'')]"
  by (simp add: cg_try_def cg_no_tether_zero_tron_def sample_defs)

section \<open>The claims\<close>

text \<open>
  C8. For every request and every state of the upstream, \<^verbatim>\<open>GET /\<close> answers with status 200
  and the fixed welcome text of the variant, and performs no effect: its trace is empty, so
  it issues no upstream call.
\<close>

theorem root_route_fixed:
  "cg_root req upstream =
     (\<lparr>code = 200,
       payload = TextBody ''Welcome to the Crypto Price API! Access /prices to get the latest data.''\<rparr>,
      []) \<and>
   cmc_root req upstream =
     (\<lparr>code = 200,
       payload = TextBody
         ''Welcome to the Crypto Price API! Access /prices to get the latest data from CoinMarketCap.''\<rparr>,
      [])"
  by (simp add: cg_root_def cmc_root_def)

theorem root_route_fixed_witness:
  "snd (cg_root () (Rejected (JsError ''connect ECONNREFUSED''))) = [] \<and>
   code (fst (cg_root () (Rejected (JsError ''connect ECONNREFUSED'')))) = 200 \<and>
   snd (cmc_root () (Resolved unavailable_reply)) = [] \<and>
   code (fst (cmc_root () (Resolved unavailable_reply))) = 200"
  using root_route_fixed [of "()" "Rejected (JsError ''connect ECONNREFUSED'')"]
    root_route_fixed [of "()" "Resolved unavailable_reply"]
  by simp

text \<open>
  C9. In the CoinGecko variant, when the payload holds an entry for a configured identifier
  and the value under the currency is \<^verbatim>\<open>0\<close> or any other falsy value, the returned PriceMap
  maps that identifier to \<^verbatim>\<open>"N/A"\<close>.
\<close>

theorem cg_falsy_price_not_available:
  assumes "ok r" and "body_json r = Inr data" and "i \<in> set CRYPTO_IDS"
    and "field data i = Some entry" and "field entry VS_CURRENCY = Some price"
    and "\<not> truthy price"
  shows "\<exists>prices. fst (cg_fetchCryptoPrices rt (Resolved r)) = prices \<and>
           prices \<notin> range error_result \<and>
           map_of prices i = Some (JStr ''N/A'')"
proof -
  from assms(4,5) obtain kvs e where data: "data = JObj kvs"
    and entry: "map_of kvs i = Some (JObj e)" and price: "map_of e VS_CURRENCY = Some price"
    by (auto dest!: field_SomeD)
  have "\<exists>m. store_all (\<lambda>i. i) (cg_lookup rt data) CRYPTO_IDS [] = Inr m"
    by (rule store_all_succeeds) (simp add: data cg_lookup_total)
  then obtain m where m: "cg_format rt data CRYPTO_IDS [] = Inr m"
    by (auto simp: cg_format_store_all)
  with assms(1,2) have ran: "cg_try rt (Resolved r) = Inr m" by (simp add: cg_try_ok)
  from m assms(3) obtain v where "cg_lookup rt data i = Inr v" and "map_of m i = Some v"
    using store_all_value [of "\<lambda>i. i" "cg_lookup rt data" CRYPTO_IDS "[]" m i]
    by (auto simp: cg_format_store_all distinct_ids)
  moreover have "cg_lookup rt data i = Inr (JStr ''N/A'')"
    unfolding data using entry by (rule cg_lookup_falsy) (simp add: obj_get_def price assms(6))
  ultimately have na: "map_of m i = Some (JStr ''N/A'')" by simp
  have "m \<notin> range error_result"
  proof
    assume "m \<in> range error_result"
    then obtain e where "m = error_result e" by blast
    then have "map fst m = [''error'', ''details'']" by (simp add: error_result_def)
    with cg_try_keys [OF ran] show False by (simp add: CRYPTO_IDS_def)
  qed
  with na cg_prices_success [OF ran, of "()"] show ?thesis by simp
qed

theorem cg_falsy_price_not_available_witness:
  "ok (json_reply cg_zero_bitcoin) \<and>
   field cg_zero_bitcoin ''bitcoin'' = Some (JObj [(''usd'', JNum (Fin 0))]) \<and>
   \<not> truthy (JNum (Fin 0)) \<and>
   map_of (fst (cg_fetchCryptoPrices sample_runtime (Resolved (json_reply cg_zero_bitcoin))))
     ''bitcoin'' = Some (JStr ''N/A'')"
proof -
  have h1: "ok (json_reply cg_zero_bitcoin)" by (simp add: json_reply_def ok_def)
  have h2: "body_json (json_reply cg_zero_bitcoin) = Inr cg_zero_bitcoin"
    by (simp add: json_reply_def)
  have h3: "''bitcoin'' \<in> set CRYPTO_IDS" by (simp add: CRYPTO_IDS_def)
  have h4: "field cg_zero_bitcoin ''bitcoin'' = Some (JObj [(''usd'', JNum (Fin 0))])"
    by (simp add: cg_zero_bitcoin_def cg_quotes_def)
  have h5: "field (JObj [(''usd'', JNum (Fin 0))]) VS_CURRENCY = Some (JNum (Fin 0))"
    by (simp add: VS_CURRENCY_def)
  have h6: "\<not> truthy (JNum (Fin 0))" by simp
  from cg_falsy_price_not_available [OF h1 h2 h3 h4 h5 h6, of sample_runtime] h1 h4 h6
  show ?thesis by simp
qed

text \<open>
  C2. Whatever the upstream call yields, an object returned by \<^verbatim>\<open>fetchCryptoPrices\<close> that is
  not the error object has exactly the configured identifiers, lower-cased, as its keys, in
  the configured order and each once: no key is missing and none is extra.
\<close>

theorem price_map_exact_keys:
  "(fst (cg_fetchCryptoPrices rt u) \<notin> range error_result \<longrightarrow>
      map fst (fst (cg_fetchCryptoPrices rt u)) = map toLowerCase CRYPTO_IDS \<and>
      distinct (map fst (fst (cg_fetchCryptoPrices rt u)))) \<and>
   (fst (cmc_fetchCryptoPrices rt u) \<notin> range error_result \<longrightarrow>
      map fst (fst (cmc_fetchCryptoPrices rt u)) = map toLowerCase CRYPTO_SYMBOLS \<and>
      distinct (map fst (fst (cmc_fetchCryptoPrices rt u))))"
proof (intro conjI impI)
  assume a: "fst (cg_fetchCryptoPrices rt u) \<notin> range error_result"
  then obtain m where m: "cg_try rt u = Inr m"
    by (cases "cg_try rt u") (auto simp: cg_fetchCryptoPrices_def)
  then have "fst (cg_fetchCryptoPrices rt u) = m" by (simp add: cg_fetchCryptoPrices_def)
  with cg_try_keys [OF m]
  show "map fst (fst (cg_fetchCryptoPrices rt u)) = map toLowerCase CRYPTO_IDS"
    and "distinct (map fst (fst (cg_fetchCryptoPrices rt u)))"
    by (simp_all add: lower_ids distinct_ids)
next
  assume a: "fst (cmc_fetchCryptoPrices rt u) \<notin> range error_result"
  then obtain m where m: "cmc_try rt u = Inr m"
    by (cases "cmc_try rt u") (auto simp: cmc_fetchCryptoPrices_def)
  then have "fst (cmc_fetchCryptoPrices rt u) = m" by (simp add: cmc_fetchCryptoPrices_def)
  with cmc_try_keys [OF m]
  show "map fst (fst (cmc_fetchCryptoPrices rt u)) = map toLowerCase CRYPTO_SYMBOLS"
    and "distinct (map fst (fst (cmc_fetchCryptoPrices rt u)))"
    by (simp_all add: distinct_lower_symbols)
qed

theorem price_map_exact_keys_witness:
  "fst (cg_fetchCryptoPrices sample_runtime (Resolved (json_reply provider_error)))
     \<notin> range error_result \<and>
   map fst (fst (cg_fetchCryptoPrices sample_runtime (Resolved (json_reply provider_error)))) =
     [''bitcoin'', ''ethereum'', ''litecoin'', ''shiba-inu'', ''dogecoin'', ''tron'', ''ripple'',
      ''the-open-network'', ''tether''] \<and>
   fst (cmc_fetchCryptoPrices sample_runtime (Resolved (json_reply (JBool True))))
     \<notin> range error_result \<and>
   map fst (fst (cmc_fetchCryptoPrices sample_runtime (Resolved (json_reply (JBool True))))) =
     [''btc'', ''eth'', ''ltc'', ''shib'', ''doge'', ''trx'', ''xrp'', ''ton'', ''usdt'']"
proof -
  have h1: "fst (cg_fetchCryptoPrices sample_runtime (Resolved (json_reply provider_error)))
     \<notin> range error_result"
    using cg_success_not_error [OF cg_provider_error_run [of sample_runtime]]
    by (simp add: cg_fetchCryptoPrices_def cg_provider_error_run)
  have h2: "fst (cmc_fetchCryptoPrices sample_runtime (Resolved (json_reply (JBool True))))
     \<notin> range error_result"
    using cmc_success_not_error [OF cmc_bool_run [of sample_runtime]]
    by (simp add: cmc_fetchCryptoPrices_def cmc_bool_run)
  from h1 h2
    price_map_exact_keys [of sample_runtime "Resolved (json_reply provider_error)"]
    price_map_exact_keys [of sample_runtime "Resolved (json_reply (JBool True))"]
  show ?thesis unfolding lower_ids lower_symbols by (simp add: CRYPTO_IDS_def)
qed

text \<open>
  C10. No configured identifier lower-cases to \<^verbatim>\<open>error\<close>, in either variant. So a PriceMap
  returned by \<^verbatim>\<open>fetchCryptoPrices\<close> has no key \<^verbatim>\<open>error\<close>, and the \<^verbatim>\<open>/prices\<close> handler
  answers it with status 200 and never takes it for a failure.
\<close>

theorem price_map_has_no_error_key:
  "''error'' \<notin> set (map toLowerCase CRYPTO_IDS) \<and>
   ''error'' \<notin> set (map toLowerCase CRYPTO_SYMBOLS) \<and>
   (fst (cg_fetchCryptoPrices rt u) \<notin> range error_result \<longrightarrow>
      ''error'' \<notin> fst ` set (fst (cg_fetchCryptoPrices rt u)) \<and>
      fst (cg_prices rt req u) =
        \<lparr>code = 200, payload = JsonBody (fst (cg_fetchCryptoPrices rt u))\<rparr>) \<and>
   (fst (cmc_fetchCryptoPrices rt u) \<notin> range error_result \<longrightarrow>
      ''error'' \<notin> fst ` set (fst (cmc_fetchCryptoPrices rt u)) \<and>
      fst (cmc_prices rt req u) =
        \<lparr>code = 200, payload = JsonBody (fst (cmc_fetchCryptoPrices rt u))\<rparr>)"
proof (intro conjI impI)
  show "''error'' \<notin> set (map toLowerCase CRYPTO_IDS)"
    by (simp add: lower_ids error_not_id)
  show "''error'' \<notin> set (map toLowerCase CRYPTO_SYMBOLS)"
    by (rule error_not_symbol)
next
  assume "fst (cg_fetchCryptoPrices rt u) \<notin> range error_result"
  then obtain m where m: "cg_try rt u = Inr m"
    by (cases "cg_try rt u") (auto simp: cg_fetchCryptoPrices_def)
  from cg_try_keys [OF m] have "''error'' \<notin> set (map fst m)" by (simp add: error_not_id)
  with cg_prices_success [OF m, of req]
  show "''error'' \<notin> fst ` set (fst (cg_fetchCryptoPrices rt u))"
    and "fst (cg_prices rt req u) =
        \<lparr>code = 200, payload = JsonBody (fst (cg_fetchCryptoPrices rt u))\<rparr>"
    by simp_all
next
  assume "fst (cmc_fetchCryptoPrices rt u) \<notin> range error_result"
  then obtain m where m: "cmc_try rt u = Inr m"
    by (cases "cmc_try rt u") (auto simp: cmc_fetchCryptoPrices_def)
  from cmc_try_keys [OF m] have "''error'' \<notin> set (map fst m)"
    using error_not_symbol by simp
  with cmc_prices_success [OF m, of req]
  show "''error'' \<notin> fst ` set (fst (cmc_fetchCryptoPrices rt u))"
    and "fst (cmc_prices rt req u) =
        \<lparr>code = 200, payload = JsonBody (fst (cmc_fetchCryptoPrices rt u))\<rparr>"
    by simp_all
qed

theorem price_map_has_no_error_key_witness:
  "fst (cg_fetchCryptoPrices sample_runtime (Resolved (json_reply cg_full)))
     \<notin> range error_result \<and>
   map_of (fst (cg_fetchCryptoPrices sample_runtime (Resolved (json_reply cg_full)))) ''error''
     = None \<and>
   code (fst (cg_prices sample_runtime () (Resolved (json_reply cg_full)))) = 200 \<and>
   fst (cmc_fetchCryptoPrices sample_runtime (Resolved (json_reply cmc_full)))
     \<notin> range error_result \<and>
   map_of (fst (cmc_fetchCryptoPrices sample_runtime (Resolved (json_reply cmc_full)))) ''error''
     = None \<and>
   code (fst (cmc_prices sample_runtime () (Resolved (json_reply cmc_full)))) = 200"
proof -
  have h1: "fst (cg_fetchCryptoPrices sample_runtime (Resolved (json_reply cg_full)))
     \<notin> range error_result"
    using cg_success_not_error [OF cg_full_run [of sample_runtime]]
    by (simp add: cg_fetchCryptoPrices_def cg_full_run)
  have h2: "fst (cmc_fetchCryptoPrices sample_runtime (Resolved (json_reply cmc_full)))
     \<notin> range error_result"
    using cmc_success_not_error [OF cmc_full_run [of sample_runtime]]
    by (simp add: cmc_fetchCryptoPrices_def cmc_full_run)
  from h1 h2
    price_map_has_no_error_key [of sample_runtime "Resolved (json_reply cg_full)" "()"]
    price_map_has_no_error_key [of sample_runtime "Resolved (json_reply cmc_full)" "()"]
  show ?thesis by (simp add: map_of_eq_None_iff)
qed

text \<open>
  C4. For every result of \<^verbatim>\<open>fetchCryptoPrices\<close>, the \<^verbatim>\<open>/prices\<close> handler sends that result
  as the JSON body, with status 500 when the result has an \<^verbatim>\<open>error\<close> field and status 200
  otherwise; the results with an \<^verbatim>\<open>error\<close> field are exactly the error objects.
\<close>

theorem prices_route_dispatch:
  "fst (cg_prices rt req u) =
     \<lparr>code = (if ''error'' \<in> fst ` set (fst (cg_fetchCryptoPrices rt u)) then 500 else 200),
      payload = JsonBody (fst (cg_fetchCryptoPrices rt u))\<rparr> \<and>
   (''error'' \<in> fst ` set (fst (cg_fetchCryptoPrices rt u))) =
     (fst (cg_fetchCryptoPrices rt u) \<in> range error_result) \<and>
   fst (cmc_prices rt req u) =
     \<lparr>code = (if ''error'' \<in> fst ` set (fst (cmc_fetchCryptoPrices rt u)) then 500 else 200),
      payload = JsonBody (fst (cmc_fetchCryptoPrices rt u))\<rparr> \<and>
   (''error'' \<in> fst ` set (fst (cmc_fetchCryptoPrices rt u))) =
     (fst (cmc_fetchCryptoPrices rt u) \<in> range error_result)"
proof -
  have cg: "fst (cg_prices rt req u) =
     \<lparr>code = (if ''error'' \<in> fst ` set (fst (cg_fetchCryptoPrices rt u)) then 500 else 200),
      payload = JsonBody (fst (cg_fetchCryptoPrices rt u))\<rparr> \<and>
   (''error'' \<in> fst ` set (fst (cg_fetchCryptoPrices rt u))) =
     (fst (cg_fetchCryptoPrices rt u) \<in> range error_result)"
  proof (cases "cg_try rt u")
    case (Inl e)
    from cg_prices_failure [OF Inl, of req] show ?thesis
      by (simp add: error_result_def)
  next
    case (Inr m)
    from cg_try_keys [OF Inr] have "''error'' \<notin> fst ` set m"
      using error_not_id by (metis set_map)
    with cg_prices_success [OF Inr, of req] cg_success_not_error [OF Inr] show ?thesis
      by simp
  qed
  have cmc: "fst (cmc_prices rt req u) =
     \<lparr>code = (if ''error'' \<in> fst ` set (fst (cmc_fetchCryptoPrices rt u)) then 500 else 200),
      payload = JsonBody (fst (cmc_fetchCryptoPrices rt u))\<rparr> \<and>
   (''error'' \<in> fst ` set (fst (cmc_fetchCryptoPrices rt u))) =
     (fst (cmc_fetchCryptoPrices rt u) \<in> range error_result)"
  proof (cases "cmc_try rt u")
    case (Inl e)
    from cmc_prices_failure [OF Inl, of req] show ?thesis
      by (simp add: error_result_def)
  next
    case (Inr m)
    from cmc_try_keys [OF Inr] have "''error'' \<notin> fst ` set m"
      using error_not_symbol by (metis set_map)
    with cmc_prices_success [OF Inr, of req] cmc_success_not_error [OF Inr] show ?thesis
      by simp
  qed
  from cg cmc show ?thesis by simp
qed

theorem prices_route_dispatch_witness:
  "fst (cg_prices sample_runtime () (Resolved unavailable_reply)) =
     \<lparr>code = 500,
      payload = JsonBody
        [(''error'', JStr ''Failed to fetch cryptocurrency prices''),
         (''details'', JStr ''CoinGecko API error: 503 Service Unavailable - upstream down'')]\<rparr> \<and>
   code (fst (cmc_prices sample_runtime () (Resolved (json_reply cmc_full)))) = 200"
  using prices_route_dispatch [of sample_runtime "()" "Resolved unavailable_reply"]
    prices_route_dispatch [of sample_runtime "()" "Resolved (json_reply cmc_full)"]
  by (simp add: cg_fetchCryptoPrices_def cmc_fetchCryptoPrices_def unavailable_run cmc_full_run
      error_result_def)



text \<open>
  C5 (amended). For every upstream reply with a non-success status, \<^verbatim>\<open>/prices\<close> answers with
  status 500 and an error object whose \<^verbatim>\<open>error\<close> field is
  \<^verbatim>\<open>"Failed to fetch cryptocurrency prices"\<close>. When the body text of the reply can be read,
  \<^verbatim>\<open>details\<close> is the provider prefix, the status code in decimal, the status text and that body
  text (at status 503 it contains \<^verbatim>\<open>503\<close>). When reading the body rejects, \<^verbatim>\<open>details\<close> is the
  message of that rejection: the error message with the status code is never built, so the
  claim as stated, for every non-success reply, does not hold.
\<close>

theorem upstream_status_failure:
  assumes "\<not> ok r"
  shows
    "code (fst (cg_prices rt req (Resolved r))) = 500 \<and>
     (\<exists>d. payload (fst (cg_prices rt req (Resolved r))) =
        JsonBody [(''error'', JStr ''Failed to fetch cryptocurrency prices''),
                  (''details'', JStr d)]) \<and>
     (body_text r = Inr t \<longrightarrow>
        payload (fst (cg_prices rt req (Resolved r))) =
          JsonBody [(''error'', JStr ''Failed to fetch cryptocurrency prices''),
                    (''details'',
                     JStr (''CoinGecko API error: '' @ decimal (status r) @ '' '' @ statusText r
                           @ '' - '' @ t))]) \<and>
     (body_text r = Inl e \<longrightarrow>
        payload (fst (cg_prices rt req (Resolved r))) =
          JsonBody [(''error'', JStr ''Failed to fetch cryptocurrency prices''),
                    (''details'', JStr (message e))]) \<and>
     code (fst (cmc_prices rt req (Resolved r))) = 500 \<and>
     (\<exists>d. payload (fst (cmc_prices rt req (Resolved r))) =
        JsonBody [(''error'', JStr ''Failed to fetch cryptocurrency prices''),
                  (''details'', JStr d)]) \<and>
     (body_text r = Inr t \<longrightarrow>
        payload (fst (cmc_prices rt req (Resolved r))) =
          JsonBody [(''error'', JStr ''Failed to fetch cryptocurrency prices''),
                    (''details'',
                     JStr (''CoinMarketCap API error: '' @ decimal (status r) @ '' '' @ statusText r
                           @ '' - '' @ t))]) \<and>
     (body_text r = Inl e \<longrightarrow>
        payload (fst (cmc_prices rt req (Resolved r))) =
          JsonBody [(''error'', JStr ''Failed to fetch cryptocurrency prices''),
                    (''details'', JStr (message e))])"
proof -
  from assms obtain x where x: "cg_try rt (Resolved r) = Inl x"
    and xt: "body_text r = Inr t \<longrightarrow>
      x = JsError (''CoinGecko API error: '' @ decimal (status r) @ '' '' @ statusText r
                           @ '' - '' @ t)"
    and xe: "body_text r = Inl e \<longrightarrow> x = e"
    by (cases "body_text r") (auto simp: cg_try_def)
  from assms obtain y where y: "cmc_try rt (Resolved r) = Inl y"
    and yt: "body_text r = Inr t \<longrightarrow>
      y = JsError (''CoinMarketCap API error: '' @ decimal (status r) @ '' '' @ statusText r
                           @ '' - '' @ t)"
    and ye: "body_text r = Inl e \<longrightarrow> y = e"
    by (cases "body_text r") (auto simp: cmc_try_def)
  from cg_prices_failure [OF x, of req] cmc_prices_failure [OF y, of req] xt xe yt ye
  show ?thesis by (auto simp: error_result_def)
qed

theorem upstream_status_failure_witness:
  "\<not> ok unavailable_reply \<and> status unavailable_reply = 503 \<and>
   body_text unavailable_reply = Inr ''upstream down'' \<and>
   fst (cg_prices sample_runtime () (Resolved unavailable_reply)) =
     \<lparr>code = 500,
      payload = JsonBody
        [(''error'', JStr ''Failed to fetch cryptocurrency prices''),
         (''details'', JStr ''CoinGecko API error: 503 Service Unavailable - upstream down'')]\<rparr> \<and>
   fst (cmc_prices sample_runtime () (Resolved unavailable_reply)) =
     \<lparr>code = 500,
      payload = JsonBody
        [(''error'', JStr ''Failed to fetch cryptocurrency prices''),
         (''details'',
          JStr ''CoinMarketCap API error: 503 Service Unavailable - upstream down'')]\<rparr> \<and>
   \<not> ok broken_reply \<and> body_text broken_reply = Inl (JsError ''Premature close'') \<and>
   fst (cmc_prices sample_runtime () (Resolved broken_reply)) =
     \<lparr>code = 500,
      payload = JsonBody
        [(''error'', JStr ''Failed to fetch cryptocurrency prices''),
         (''details'', JStr ''Premature close'')]\<rparr>"
proof -
  have h: "\<not> ok unavailable_reply" by (simp add: unavailable_reply_def ok_def)
  have t: "body_text unavailable_reply = Inr ''upstream down''"
    by (simp add: unavailable_reply_def)
  have s: "status unavailable_reply = 503" "statusText unavailable_reply = ''Service Unavailable''"
    by (simp_all add: unavailable_reply_def)
  have d: "decimal 503 = ''503''" by (simp add: decimal.simps)
  have h': "\<not> ok broken_reply" by (simp add: broken_reply_def ok_def)
  have t': "body_text broken_reply = Inl (JsError ''Premature close'')"
    by (simp add: broken_reply_def)
  from upstream_status_failure [OF h, of sample_runtime "()" "''upstream down''"] t
  have "fst (cg_prices sample_runtime () (Resolved unavailable_reply)) =
     \<lparr>code = 500,
      payload = JsonBody
        [(''error'', JStr ''Failed to fetch cryptocurrency prices''),
         (''details'', JStr ''CoinGecko API error: 503 Service Unavailable - upstream down'')]\<rparr>"
    and "fst (cmc_prices sample_runtime () (Resolved unavailable_reply)) =
     \<lparr>code = 500,
      payload = JsonBody
        [(''error'', JStr ''Failed to fetch cryptocurrency prices''),
         (''details'',
          JStr ''CoinMarketCap API error: 503 Service Unavailable - upstream down'')]\<rparr>"
    by (simp_all add: s d http_response.equality)
  moreover
  from upstream_status_failure [OF h', of sample_runtime "()" _ "JsError ''Premature close''"] t'
  have "fst (cmc_prices sample_runtime () (Resolved broken_reply)) =
     \<lparr>code = 500,
      payload = JsonBody
        [(''error'', JStr ''Failed to fetch cryptocurrency prices''),
         (''details'', JStr ''Premature close'')]\<rparr>"
    by (simp add: http_response.equality)
  ultimately show ?thesis using h t s h' t' by simp
qed

theorem unreadable_body_counterexample:
  "\<not> ok broken_reply \<and> status broken_reply = 502 \<and> decimal 502 = ''502'' \<and>
   fst (cg_prices sample_runtime () (Resolved broken_reply)) =
     \<lparr>code = 500,
      payload = JsonBody
        [(''error'', JStr ''Failed to fetch cryptocurrency prices''),
         (''details'', JStr ''Premature close'')]\<rparr> \<and>
   CHR ''5'' \<notin> set ''Premature close''"
  by (simp add: cg_prices_def cg_fetchCryptoPrices_def cg_try_def error_result_def obj_get_def
      broken_reply_def ok_def decimal.simps)

text \<open>
  C1. The claim: on a successful upstream response whose payload has a price entry for every
  configured identifier, \<^verbatim>\<open>/prices\<close> answers 200 with a PriceMap that maps each identifier,
  lower-cased, to the number of the payload. The code breaks it. In \<^verbatim>\<open>server.js\<close> the test
  \<^verbatim>\<open>data[id] && data[id][VS_CURRENCY]\<close> takes the price \<^verbatim>\<open>0\<close> for a missing one: on a CoinGecko
  payload with an entry for every identifier and bitcoin priced \<^verbatim>\<open>0\<close>, bitcoin is mapped to
  \<^verbatim>\<open>"N/A"\<close>, against the comment on that branch (price not found) and against the
  CoinMarketCap variant, which passes a price of \<^verbatim>\<open>0\<close> through. In the CoinMarketCap variant a
  complete payload whose \<^verbatim>\<open>status\<close> object carries no \<^verbatim>\<open>error_code\<close> is answered with 500,
  since \<^verbatim>\<open>undefined !== 0\<close>. The theorem runs the code on these three payloads.
\<close>

theorem zero_price_reported_missing:
  "ok (json_reply cg_zero_bitcoin) \<and>
   body_json (json_reply cg_zero_bitcoin) = Inr cg_zero_bitcoin \<and>
   map (cg_price_entry cg_zero_bitcoin) CRYPTO_IDS =
     [Some (Fin 0), Some (Fin 2000), Some (Fin 90), Some (Fin (1 / 100000)),
      Some (Fin (7 / 100)), Some (Fin (8 / 100)), Some (Fin (1 / 2)), Some (Fin 2),
      Some (Fin 1)] \<and>
   fst (cg_prices rt req (Resolved (json_reply cg_zero_bitcoin))) =
     \<lparr>code = 200,
      payload = JsonBody
        [(''bitcoin'', JStr ''N/A''), (''ethereum'', JNum (Fin 2000)),
         (''litecoin'', JNum (Fin 90)), (''shiba-inu'', JNum (Fin (1 / 100000))),
         (''dogecoin'', JNum (Fin (7 / 100))), (''tron'', JNum (Fin (8 / 100))),
         (''ripple'', JNum (Fin (1 / 2))), (''the-open-network'', JNum (Fin 2)),
         (''tether'', JNum (Fin 1))]\<rparr> \<and>
   map (cmc_price_entry cmc_full) CRYPTO_SYMBOLS =
     [Some (Fin 30000), Some (Fin 2000), Some (Fin 90), Some (Fin 0),
      Some (Fin (7 / 100)), Some (Fin (8 / 100)), Some (Fin (1 / 2)), Some (Fin 2),
      Some (Fin 1)] \<and>
   fst (cmc_prices rt req (Resolved (json_reply cmc_full))) =
     \<lparr>code = 200,
      payload = JsonBody
        [(''btc'', JNum (Fin 30000)), (''eth'', JNum (Fin 2000)), (''ltc'', JNum (Fin 90)),
         (''shib'', JNum (Fin 0)), (''doge'', JNum (Fin (7 / 100))),
         (''trx'', JNum (Fin (8 / 100))), (''xrp'', JNum (Fin (1 / 2))),
         (''ton'', JNum (Fin 2)), (''usdt'', JNum (Fin 1))]\<rparr> \<and>
   ok (json_reply cmc_full_no_code) \<and>
   body_json (json_reply cmc_full_no_code) = Inr cmc_full_no_code \<and>
   map (cmc_price_entry cmc_full_no_code) CRYPTO_SYMBOLS =
     [Some (Fin 30000), Some (Fin 2000), Some (Fin 90), Some (Fin 0),
      Some (Fin (7 / 100)), Some (Fin (8 / 100)), Some (Fin (1 / 2)), Some (Fin 2),
      Some (Fin 1)] \<and>
   fst (cmc_prices rt req (Resolved (json_reply cmc_full_no_code))) =
     \<lparr>code = 500,
      payload = JsonBody
        [(''error'', JStr ''Failed to fetch cryptocurrency prices''),
         (''details'', JStr ''CoinMarketCap API internal error: null'')]\<rparr>"
proof -
  have replies: "ok (json_reply cg_zero_bitcoin)"
    "body_json (json_reply cg_zero_bitcoin) = Inr cg_zero_bitcoin"
    "ok (json_reply cmc_full_no_code)"
    "body_json (json_reply cmc_full_no_code) = Inr cmc_full_no_code"
    by (simp_all add: json_reply_def ok_def)
  have entries:
    "map (cg_price_entry cg_zero_bitcoin) CRYPTO_IDS =
       [Some (Fin 0), Some (Fin 2000), Some (Fin 90), Some (Fin (1 / 100000)),
        Some (Fin (7 / 100)), Some (Fin (8 / 100)), Some (Fin (1 / 2)), Some (Fin 2),
        Some (Fin 1)]"
    "map (cmc_price_entry cmc_full) CRYPTO_SYMBOLS =
       [Some (Fin 30000), Some (Fin 2000), Some (Fin 90), Some (Fin 0),
        Some (Fin (7 / 100)), Some (Fin (8 / 100)), Some (Fin (1 / 2)), Some (Fin 2),
        Some (Fin 1)]"
    "map (cmc_price_entry cmc_full_no_code) CRYPTO_SYMBOLS =
       [Some (Fin 30000), Some (Fin 2000), Some (Fin 90), Some (Fin 0),
        Some (Fin (7 / 100)), Some (Fin (8 / 100)), Some (Fin (1 / 2)), Some (Fin 2),
        Some (Fin 1)]"
    by (simp_all add: cg_zero_bitcoin_def cmc_full_def cmc_full_no_code_def entry_defs)
  note runs =
    cg_prices_success [OF cg_zero_bitcoin_run, of rt req]
    cmc_prices_success [OF cmc_full_run, of rt req]
    cmc_prices_failure [OF cmc_full_no_code_run, of rt req]
  from replies entries runs show ?thesis by (simp add: error_result_def)
qed

theorem zero_price_reported_missing_witness:
  "cg_price_entry cg_zero_bitcoin ''bitcoin'' = Some (Fin 0) \<and>
   code (fst (cg_prices sample_runtime () (Resolved (json_reply cg_zero_bitcoin)))) = 200 \<and>
   payload (fst (cg_prices sample_runtime () (Resolved (json_reply cg_zero_bitcoin)))) =
     JsonBody
        [(''bitcoin'', JStr ''N/A''), (''ethereum'', JNum (Fin 2000)),
         (''litecoin'', JNum (Fin 90)), (''shiba-inu'', JNum (Fin (1 / 100000))),
         (''dogecoin'', JNum (Fin (7 / 100))), (''tron'', JNum (Fin (8 / 100))),
         (''ripple'', JNum (Fin (1 / 2))), (''the-open-network'', JNum (Fin 2)),
         (''tether'', JNum (Fin 1))] \<and>
   code (fst (cmc_prices sample_runtime () (Resolved (json_reply cmc_full_no_code)))) = 500"
  using zero_price_reported_missing [of sample_runtime "()"]
  by (simp add: CRYPTO_IDS_def)

text \<open>
  C6. The claim: when the price entry of exactly one configured identifier is structurally
  absent from a successful response, that identifier is mapped to \<^verbatim>\<open>"N/A"\<close>, every other one
  to its number, and the request does not fail. The code breaks it. In the CoinMarketCap
  variant the condition reads \<^verbatim>\<open>data.data[symbol][0].quote\<close> without testing the element: on
  a payload whose \<^verbatim>\<open>BTC\<close> listing is \<^verbatim>\<open>[null]\<close>, all other entries present, the read throws a
  TypeError and \<^verbatim>\<open>/prices\<close> answers 500. When \<^verbatim>\<open>quote.USD\<close> is an object without \<^verbatim>\<open>price\<close>, the
  identifier is mapped to \<^verbatim>\<open>undefined\<close>, not to \<^verbatim>\<open>"N/A"\<close>. In the CoinGecko variant, with tether
  omitted and tron priced \<^verbatim>\<open>0\<close>, tron is mapped to \<^verbatim>\<open>"N/A"\<close> as well: the truthiness test that
  fails C1. The theorem runs the code on these three payloads.
\<close>

theorem null_listing_fails_request:
  "ok (json_reply cmc_null_listing) \<and>
   body_json (json_reply cmc_null_listing) = Inr cmc_null_listing \<and>
   cmc_status_check rt cmc_null_listing = Inr () \<and>
   map (cmc_price_entry cmc_null_listing) CRYPTO_SYMBOLS =
     [None, Some (Fin 2000), Some (Fin 90), Some (Fin 0), Some (Fin (7 / 100)),
      Some (Fin (8 / 100)), Some (Fin (1 / 2)), Some (Fin 2), Some (Fin 1)] \<and>
   fst (cmc_prices rt req (Resolved (json_reply cmc_null_listing))) =
     \<lparr>code = 500,
      payload = JsonBody
        [(''error'', JStr ''Failed to fetch cryptocurrency prices''),
         (''details'', JStr (type_error_message rt JNull ''quote''))]\<rparr> \<and>
   map (cmc_price_entry cmc_priceless_quote) CRYPTO_SYMBOLS =
     [None, Some (Fin 2000), Some (Fin 90), Some (Fin 0), Some (Fin (7 / 100)),
      Some (Fin (8 / 100)), Some (Fin (1 / 2)), Some (Fin 2), Some (Fin 1)] \<and>
   fst (cmc_prices rt req (Resolved (json_reply cmc_priceless_quote))) =
     \<lparr>code = 200,
      payload = JsonBody
        [(''btc'', JUndefined), (''eth'', JNum (Fin 2000)), (''ltc'', JNum (Fin 90)),
         (''shib'', JNum (Fin 0)), (''doge'', JNum (Fin (7 / 100))),
         (''trx'', JNum (Fin (8 / 100))), (''xrp'', JNum (Fin (1 / 2))),
         (''ton'', JNum (Fin 2)), (''usdt'', JNum (Fin 1))]\<rparr> \<and>
   omits cg_no_tether_zero_tron ''tether'' \<and>
   map (cg_price_entry cg_no_tether_zero_tron) CRYPTO_IDS =
     [Some (Fin 30000), Some (Fin 2000), Some (Fin 90), Some (Fin (1 / 100000)),
      Some (Fin (7 / 100)), Some (Fin 0), Some (Fin (1 / 2)), Some (Fin 2), None] \<and>
   fst (cg_prices rt req (Resolved (json_reply cg_no_tether_zero_tron))) =
     \<lparr>code = 200,
      payload = JsonBody
        [(''bitcoin'', JNum (Fin 30000)), (''ethereum'', JNum (Fin 2000)),
         (''litecoin'', JNum (Fin 90)), (''shiba-inu'', JNum (Fin (1 / 100000))),
         (''dogecoin'', JNum (Fin (7 / 100))), (''tron'', JStr ''N/A''),
         (''ripple'', JNum (Fin (1 / 2))), (''the-open-network'', JNum (Fin 2)),
         (''tether'', JStr ''N/A'')]\<rparr>"
proof -
  have replies: "ok (json_reply cmc_null_listing)"
    "body_json (json_reply cmc_null_listing) = Inr cmc_null_listing"
    by (simp_all add: json_reply_def ok_def)
  have entries:
    "map (cmc_price_entry cmc_null_listing) CRYPTO_SYMBOLS =
       [None, Some (Fin 2000), Some (Fin 90), Some (Fin 0), Some (Fin (7 / 100)),
        Some (Fin (8 / 100)), Some (Fin (1 / 2)), Some (Fin 2), Some (Fin 1)]"
    "map (cmc_price_entry cmc_priceless_quote) CRYPTO_SYMBOLS =
       [None, Some (Fin 2000), Some (Fin 90), Some (Fin 0), Some (Fin (7 / 100)),
        Some (Fin (8 / 100)), Some (Fin (1 / 2)), Some (Fin 2), Some (Fin 1)]"
    "map (cg_price_entry cg_no_tether_zero_tron) CRYPTO_IDS =
       [Some (Fin 30000), Some (Fin 2000), Some (Fin 90), Some (Fin (1 / 100000)),
        Some (Fin (7 / 100)), Some (Fin 0), Some (Fin (1 / 2)), Some (Fin 2), None]"
    "omits cg_no_tether_zero_tron ''tether''"
    by (simp_all add: cmc_null_listing_def cmc_priceless_quote_def cg_no_tether_zero_tron_def
        entry_defs)
  note runs =
    cmc_prices_failure [OF cmc_null_listing_run, of rt req]
    cmc_prices_success [OF cmc_priceless_quote_run, of rt req]
    cg_prices_success [OF cg_no_tether_zero_tron_run, of rt req]
  from replies entries runs cmc_null_listing_check [of rt] show ?thesis
    by (simp add: error_result_def)
qed

theorem null_listing_fails_request_witness:
  "cmc_price_entry cmc_null_listing ''BTC'' = None \<and>
   fst (cmc_prices sample_runtime () (Resolved (json_reply cmc_null_listing))) =
     \<lparr>code = 500,
      payload = JsonBody
        [(''error'', JStr ''Failed to fetch cryptocurrency prices''),
         (''details'', JStr ''Cannot read properties of null or undefined'')]\<rparr> \<and>
   map_of
     (fst (cmc_fetchCryptoPrices sample_runtime (Resolved (json_reply cmc_priceless_quote))))
     ''btc'' = Some JUndefined \<and>
   cg_price_entry cg_no_tether_zero_tron ''tron'' = Some (Fin 0)"
proof -
  from null_listing_fails_request [of sample_runtime "()"]
  have "cmc_price_entry cmc_null_listing ''BTC'' = None"
    and "cg_price_entry cg_no_tether_zero_tron ''tron'' = Some (Fin 0)"
    and "fst (cmc_prices sample_runtime () (Resolved (json_reply cmc_null_listing))) =
     \<lparr>code = 500,
      payload = JsonBody
        [(''error'', JStr ''Failed to fetch cryptocurrency prices''),
         (''details'', JStr ''Cannot read properties of null or undefined'')]\<rparr>"
    by (simp_all add: CRYPTO_SYMBOLS_def CRYPTO_IDS_def sample_runtime_def)
  moreover have "map_of
     (fst (cmc_fetchCryptoPrices sample_runtime (Resolved (json_reply cmc_priceless_quote))))
     ''btc'' = Some JUndefined"
    by (simp add: cmc_fetchCryptoPrices_def cmc_priceless_quote_run)
  ultimately show ?thesis by simp
qed

text \<open>
  C7 (amended). In the CoinMarketCap variant, for every upstream response whose body parses
  as JSON with a \<^verbatim>\<open>status\<close> object whose \<^verbatim>\<open>error_code\<close> is a number other than zero,
  \<^verbatim>\<open>fetchCryptoPrices\<close> returns the error object and \<^verbatim>\<open>/prices\<close> answers 500. On a 2xx reply
  \<^verbatim>\<open>details\<close> is \<^verbatim>\<open>CoinMarketCap API internal error:\<close> followed by the text of
  \<^verbatim>\<open>status.error_message\<close>, or, when that value cannot be converted to a string, the message
  of the TypeError the conversion throws. The CoinGecko variant has no such check: there, the
  same body on a 2xx reply gives status 200 and a PriceMap of \<^verbatim>\<open>"N/A"\<close>.
\<close>

theorem cmc_embedded_error_fails:
  assumes "body_json r = Inr data" and "field data ''status'' = Some st"
    and "field st ''error_code'' = Some (JNum c)" and "c \<noteq> Fin 0"
  shows
    "fst (cmc_fetchCryptoPrices rt (Resolved r)) \<in> range error_result \<and>
     fst (cmc_prices rt req (Resolved r)) =
       \<lparr>code = 500, payload = JsonBody (fst (cmc_fetchCryptoPrices rt (Resolved r)))\<rparr> \<and>
     (ok r \<longrightarrow>
        (\<exists>em. get_prop rt st ''error_message'' = Inr em \<and>
           (\<forall>s. to_string rt em = Inr s \<longrightarrow>
              fst (cmc_fetchCryptoPrices rt (Resolved r)) =
                [(''error'', JStr ''Failed to fetch cryptocurrency prices''),
                 (''details'', JStr (''CoinMarketCap API internal error: '' @ s))]) \<and>
           (\<forall>e. to_string rt em = Inl e \<longrightarrow>
              fst (cmc_fetchCryptoPrices rt (Resolved r)) =
                [(''error'', JStr ''Failed to fetch cryptocurrency prices''),
                 (''details'', JStr (message e))])))"
proof -
  from assms(2,3) obtain kvs sk where data: "data = JObj kvs"
    and st: "st = JObj sk" "map_of kvs ''status'' = Some (JObj sk)"
    and ec: "map_of sk ''error_code'' = Some (JNum c)"
    by (auto dest!: field_SomeD)
  let ?em = "obj_get sk ''error_message''"
  let ?thrown = "case to_string rt ?em of
      Inl e \<Rightarrow> e
    | Inr s \<Rightarrow> JsError (''CoinMarketCap API internal error: '' @ s)"
  from st ec assms(4) have check: "cmc_status_check rt data = Inl ?thrown"
    by (simp add: cmc_status_check_def data obj_get_def split: sum.splits)
  have ok_case: "cmc_try rt (Resolved r) = Inl ?thrown" if "ok r"
    using that assms(1) check by (simp add: cmc_try_def)
  have "\<exists>e. cmc_try rt (Resolved r) = Inl e"
  proof (cases "ok r")
    case True
    with ok_case show ?thesis by blast
  next
    case False
    then show ?thesis by (cases "body_text r") (auto simp: cmc_try_def)
  qed
  then obtain e where e: "cmc_try rt (Resolved r) = Inl e" by blast
  note res = cmc_prices_failure [OF e, of req]
  have "ok r \<longrightarrow>
        (\<exists>em. get_prop rt st ''error_message'' = Inr em \<and>
           (\<forall>s. to_string rt em = Inr s \<longrightarrow>
              fst (cmc_fetchCryptoPrices rt (Resolved r)) =
                [(''error'', JStr ''Failed to fetch cryptocurrency prices''),
                 (''details'', JStr (''CoinMarketCap API internal error: '' @ s))]) \<and>
           (\<forall>e. to_string rt em = Inl e \<longrightarrow>
              fst (cmc_fetchCryptoPrices rt (Resolved r)) =
                [(''error'', JStr ''Failed to fetch cryptocurrency prices''),
                 (''details'', JStr (message e))]))"
  proof
    assume "ok r"
    from ok_case [OF this] e have "e = ?thrown" by simp
    with res st show "\<exists>em. get_prop rt st ''error_message'' = Inr em \<and>
           (\<forall>s. to_string rt em = Inr s \<longrightarrow>
              fst (cmc_fetchCryptoPrices rt (Resolved r)) =
                [(''error'', JStr ''Failed to fetch cryptocurrency prices''),
                 (''details'', JStr (''CoinMarketCap API internal error: '' @ s))]) \<and>
           (\<forall>e. to_string rt em = Inl e \<longrightarrow>
              fst (cmc_fetchCryptoPrices rt (Resolved r)) =
                [(''error'', JStr ''Failed to fetch cryptocurrency prices''),
                 (''details'', JStr (message e))])"
      by (simp add: error_result_def)
  qed
  with res show ?thesis by simp
qed

theorem cmc_embedded_error_fails_witness:
  "body_json (json_reply provider_error) = Inr provider_error \<and>
   field provider_error ''status'' =
     Some (JObj [(''error_code'', JNum (Fin 1008)),
                 (''error_message'', JStr ''request rate limit exceeded'')]) \<and>
   Fin 1008 \<noteq> Fin 0 \<and>
   fst (cmc_prices sample_runtime () (Resolved (json_reply provider_error))) =
     \<lparr>code = 500,
      payload = JsonBody
        [(''error'', JStr ''Failed to fetch cryptocurrency prices''),
         (''details'',
          JStr ''CoinMarketCap API internal error: request rate limit exceeded'')]\<rparr> \<and>
   body_json (json_reply unprintable_error) = Inr unprintable_error \<and>
   field unprintable_error ''status'' =
     Some (JObj [(''error_code'', JNum (Fin 1)),
                 (''error_message'',
                  JObj [(''toString'', JNum (Fin 1)), (''valueOf'', JNum (Fin 1))])]) \<and>
   Fin 1 \<noteq> Fin 0 \<and>
   fst (cmc_prices sample_runtime () (Resolved (json_reply unprintable_error))) =
     \<lparr>code = 500,
      payload = JsonBody
        [(''error'', JStr ''Failed to fetch cryptocurrency prices''),
         (''details'', JStr ''Cannot convert object to primitive value'')]\<rparr>"
proof -
  let ?st = "JObj [(''error_code'', JNum (Fin 1008)),
                 (''error_message'', JStr ''request rate limit exceeded'')]"
  let ?st' = "JObj [(''error_code'', JNum (Fin 1)),
                 (''error_message'',
                  JObj [(''toString'', JNum (Fin 1)), (''valueOf'', JNum (Fin 1))])]"
  have h1: "body_json (json_reply provider_error) = Inr provider_error"
    and k1: "body_json (json_reply unprintable_error) = Inr unprintable_error"
    by (simp_all add: json_reply_def)
  have h2: "field provider_error ''status'' = Some ?st" by (simp add: provider_error_def)
  have k2: "field unprintable_error ''status'' = Some ?st'" by (simp add: unprintable_error_def)
  have h3: "field ?st ''error_code'' = Some (JNum (Fin 1008))" by simp
  have k3: "field ?st' ''error_code'' = Some (JNum (Fin 1))" by simp
  have h4: "Fin 1008 \<noteq> Fin 0" and k4: "Fin 1 \<noteq> Fin 0" by simp_all
  have h5: "ok (json_reply provider_error)" and k5: "ok (json_reply unprintable_error)"
    by (simp_all add: json_reply_def ok_def)
  from cmc_embedded_error_fails [OF h1 h2 h3 h4, of sample_runtime "()"] h5
  have h: "fst (cmc_prices sample_runtime () (Resolved (json_reply provider_error))) =
     \<lparr>code = 500,
      payload = JsonBody
        [(''error'', JStr ''Failed to fetch cryptocurrency prices''),
         (''details'',
          JStr ''CoinMarketCap API internal error: request rate limit exceeded'')]\<rparr>"
    by (auto simp: obj_get_def)
  from cmc_embedded_error_fails [OF k1 k2 k3 k4, of sample_runtime "()"] k5
  have k: "fst (cmc_prices sample_runtime () (Resolved (json_reply unprintable_error))) =
     \<lparr>code = 500,
      payload = JsonBody
        [(''error'', JStr ''Failed to fetch cryptocurrency prices''),
         (''details'', JStr ''Cannot convert object to primitive value'')]\<rparr>"
    by (auto simp: obj_get_def sample_runtime_def)
  from h k h1 h2 h4 k1 k2 k4 show ?thesis by simp
qed

theorem cg_embedded_error_counterexample:
  "ok (json_reply provider_error) \<and>
   body_json (json_reply provider_error) = Inr provider_error \<and>
   field provider_error ''status'' =
     Some (JObj [(''error_code'', JNum (Fin 1008)),
                 (''error_message'', JStr ''request rate limit exceeded'')]) \<and>
   Fin 1008 \<noteq> Fin 0 \<and>
   fst (cg_prices sample_runtime () (Resolved (json_reply provider_error))) =
     \<lparr>code = 200,
      payload = JsonBody
        [(''bitcoin'', JStr ''N/A''), (''ethereum'', JStr ''N/A''), (''litecoin'', JStr ''N/A''),
         (''shiba-inu'', JStr ''N/A''), (''dogecoin'', JStr ''N/A''), (''tron'', JStr ''N/A''),
         (''ripple'', JStr ''N/A''), (''the-open-network'', JStr ''N/A''),
         (''tether'', JStr ''N/A'')]\<rparr>"
  by (simp add: cg_prices_def cg_fetchCryptoPrices_def cg_provider_error_run obj_get_def)
    (simp add: json_reply_def ok_def provider_error_def)

end
